theory Spec2Isabelle
  imports Complex_Main
begin

section \<open>The credential server (server.js)\<close>

text \<open>
  The program is one Express application: a database initialiser run when the server
  starts to listen, and the two routes \<^verbatim>\<open>POST /api/register\<close> and
  \<^verbatim>\<open>POST /api/login\<close>. It calls into two libraries that are not part of the
  repository: \<^verbatim>\<open>bcrypt\<close> and the PostgreSQL client \<^verbatim>\<open>pg\<close>. The hash
  functions of bcrypt and pg's conversion of a non-string parameter are parameters of
  the model (record \<open>libs\<close>); the database is modelled as the one table that the
  \<^verbatim>\<open>CREATE TABLE\<close> statement of the source declares, with the constraints written
  there. Everything a call cannot decide by itself (the random salt, the clock of the
  database, a failure of the database for a reason outside the table) is an explicit
  input of the call (record \<open>world\<close>).
\<close>

subsection \<open>JavaScript values of the request body\<close>

text \<open>
  \<^verbatim>\<open>const { username, password } = req.body\<close> binds each name to a value of the
  parsed JSON body, or to \<^verbatim>\<open>undefined\<close> when the property is absent. The body is
  taken to be what \<^verbatim>\<open>express.json()\<close> hands on, an object or an array; a request
  is modelled by the two values bound. A number is kept by its value (a parsed body
  holds no NaN).
\<close>

datatype jsval =
    JUndefined
  | JNull
  | JBool bool
  | JNum rat
  | JStr string
  | JArray "jsval list"
  | JObject "(string \<times> jsval) list"

text \<open>JavaScript's \<^verbatim>\<open>ToBoolean\<close>; the guards of both routes are \<^verbatim>\<open>!username || !password\<close>.\<close>

fun truthy :: "jsval \<Rightarrow> bool" where
  "truthy JUndefined = False"
| "truthy JNull = False"
| "truthy (JBool b) = b"
| "truthy (JNum x) = (x \<noteq> 0)"
| "truthy (JStr s) = (s \<noteq> [])"
| "truthy (JArray xs) = True"
| "truthy (JObject kvs) = True"

record credentials =
  req_username :: jsval
  req_password :: jsval

subsection \<open>Errors, responses, effects\<close>

text \<open>
  A thrown error, as far as the source looks at it: \<^verbatim>\<open>err.code\<close>. An error of the
  database carries its SQLSTATE there; an error of bcrypt has no \<^verbatim>\<open>code\<close>.
\<close>

datatype js_error = DatabaseError string | PlainError

fun err_code :: "js_error \<Rightarrow> string option" where
  "err_code (DatabaseError c) = Some c"
| "err_code PlainError = None"

text \<open>
  The six message literals of the source, by what they say: the username and the
  password must not be empty (lines 48 and 76); the registration succeeded (61); the
  username exists already (65); internal server error (68 and 98); the login
  succeeded (92); wrong username or password (85 and 94).
\<close>

datatype message =
    FieldsEmpty
  | RegisterSucceeded
  | UsernameExists
  | InternalError
  | LoginSucceeded
  | WrongCredentials

datatype json =
    Message message
  | Number nat
  | String string
  | Object "(string \<times> json) list"

record response =
  status :: nat
  body :: "(string \<times> json) list"

text \<open>\<^verbatim>\<open>res.status(n).json({ message: m })\<close>\<close>

definition reply :: "nat \<Rightarrow> message \<Rightarrow> response" where
  "reply n m = \<lparr>status = n, body = [(''message'', Message m)]\<rparr>"

datatype statement =
    CreateTableIfNotExists
  | InsertUser string string
  | SelectUser string

datatype effect =
    PoolConnect
  | ClientRelease
  | Query statement
  | ConsoleLog
  | ConsoleError

subsection \<open>The table \<open>users\<close>\<close>

text \<open>
  \<^verbatim>\<open>id SERIAL PRIMARY KEY, username VARCHAR(50) UNIQUE NOT NULL,
  password_hash VARCHAR(100) NOT NULL, created_at TIMESTAMP ... DEFAULT CURRENT_TIMESTAMP\<close>.
  The table comes with the sequence that feeds \<open>id\<close>; the database either has the
  table or does not (a name denotes at most one relation).
\<close>

record user_row =
  row_id :: nat
  row_username :: string
  row_password_hash :: string
  row_created_at :: nat

record users_table =
  table_rows :: "user_row list"
  users_id_seq :: nat

type_synonym database = "users_table option"

definition empty_table :: users_table where
  "empty_table = \<lparr>table_rows = [], users_id_seq = 1\<rparr>"

text \<open>
  Assignment to a \<^verbatim>\<open>VARCHAR(n)\<close> column. PostgreSQL's manual (Character Types):
  an attempt to store a longer string is an error, unless the excess characters are
  all spaces, in which case the string is truncated to the maximum length. \<open>None\<close>
  is the error. A comparison of \<open>username\<close> with a parameter, as in the \<^verbatim>\<open>SELECT\<close>
  below, does no such cut: there trailing spaces count.
\<close>

definition varchar :: "nat \<Rightarrow> string \<Rightarrow> string option" where
  "varchar n s =
     (if length s \<le> n then Some s
      else if list_all (\<lambda>c. c = CHR '' '') (drop n s) then Some (take n s)
      else None)"

text \<open>
  A text value of PostgreSQL holds no character U+0000: a parameter that has one is
  refused with SQLSTATE 22021 when it is bound to the statement.
\<close>

definition has_nul :: "string \<Rightarrow> bool" where
  "has_nul s = (CHR 0x00 \<in> set s)"

text \<open>
  Every statement takes \<open>failure\<close>: the error, if any, with which the database fails
  for a reason outside the table and the parameters (it cannot be reached, the role
  lacks a permission, the sequence of \<open>id\<close>, which ends at 2147483647, is used up,
  ...). Such a failure leaves the database as it was.
\<close>

definition create_table_if_not_exists ::
    "js_error option \<Rightarrow> database \<Rightarrow> (js_error + unit) \<times> database" where
  "create_table_if_not_exists failure db =
     (case failure of
        Some e \<Rightarrow> (Inl e, db)
      | None \<Rightarrow>
          (case db of
             None \<Rightarrow> (Inr (), Some empty_table)
           | Some t \<Rightarrow> (Inr (), Some t)))"

text \<open>
  \<^verbatim>\<open>INSERT INTO users (username, password_hash) VALUES ($1, $2) RETURNING id, username\<close>.
  SQLSTATE 42P01: the table does not exist; 22001: a value is too long for its column;
  22021: the username has the character U+0000; 23505: a uniqueness constraint (the
  primary key or \<open>username\<close>) is violated. A parameter that is refused or too long is
  so before a row is formed. The sequence has handed out its value when uniqueness
  is checked, and a value handed out is never taken back. The second parameter is
  the string bcrypt made, in whose alphabet U+0000 is not. The result is
  \<^verbatim>\<open>result.rows[0]\<close>, the \<open>id\<close> and \<open>username\<close> of the new row.
\<close>

definition insert_user ::
    "js_error option \<Rightarrow> nat \<Rightarrow> string \<Rightarrow> string \<Rightarrow> database \<Rightarrow>
       (js_error + nat \<times> string) \<times> database" where
  "insert_user failure now u h db =
     (case failure of
        Some e \<Rightarrow> (Inl e, db)
      | None \<Rightarrow>
          (case db of
             None \<Rightarrow> (Inl (DatabaseError ''42P01''), db)
           | Some t \<Rightarrow>
               (if has_nul u then (Inl (DatabaseError ''22021''), db)
                else
                  (case (varchar 50 u, varchar 100 h) of
                     (Some u', Some h') \<Rightarrow>
                       (let i = users_id_seq t;
                            t' = t\<lparr>users_id_seq := Suc i\<rparr>
                        in if list_ex (\<lambda>r. row_id r = i \<or> row_username r = u')
                                (table_rows t)
                           then (Inl (DatabaseError ''23505''), Some t')
                           else (Inr (i, u'),
                                 Some (t'\<lparr>table_rows := table_rows t @
                                   [\<lparr>row_id = i, row_username = u', row_password_hash = h',
                                     row_created_at = now\<rparr>]\<rparr>)))
                   | _ \<Rightarrow> (Inl (DatabaseError ''22001''), db)))))"

text \<open>
  \<^verbatim>\<open>SELECT * FROM users WHERE username = $1\<close>: the rows whose \<open>username\<close> is the
  parameter, character by character; 22021 when the parameter has the character
  U+0000.
\<close>

definition select_user ::
    "js_error option \<Rightarrow> string \<Rightarrow> database \<Rightarrow> (js_error + user_row list) \<times> database" where
  "select_user failure u db =
     (case failure of
        Some e \<Rightarrow> (Inl e, db)
      | None \<Rightarrow>
          (case db of
             None \<Rightarrow> (Inl (DatabaseError ''42P01''), db)
           | Some t \<Rightarrow>
               (if has_nul u then (Inl (DatabaseError ''22021''), db)
                else (Inr (filter (\<lambda>r. row_username r = u) (table_rows t)), db))))"

subsection \<open>The libraries\<close>

text \<open>
  \<open>bcrypt_hash data rounds salt\<close> is the string \<^verbatim>\<open>bcrypt.hash(data, rounds)\<close> resolves
  to when the salt it draws is \<open>salt\<close>; \<open>bcrypt_compare data hash\<close> is what
  \<^verbatim>\<open>bcrypt.compare(data, hash)\<close> resolves to; \<open>prepareValue\<close> is the text pg sends
  for a query parameter that is not a string.
\<close>

record libs =
  bcrypt_hash :: "string \<Rightarrow> nat \<Rightarrow> string \<Rightarrow> string"
  bcrypt_compare :: "string \<Rightarrow> string \<Rightarrow> bool"
  prepareValue :: "jsval \<Rightarrow> string"

record world =
  salt :: string
  clock :: nat
  fault :: "js_error option"

text \<open>Both functions of bcrypt reject data that is not a string.\<close>

fun hash_js :: "libs \<Rightarrow> jsval \<Rightarrow> nat \<Rightarrow> string \<Rightarrow> js_error + string" where
  "hash_js env (JStr p) rounds s = Inr (bcrypt_hash env p rounds s)"
| "hash_js env v rounds s = Inl PlainError"

fun compare_js :: "libs \<Rightarrow> jsval \<Rightarrow> string \<Rightarrow> js_error + bool" where
  "compare_js env (JStr p) h = Inr (bcrypt_compare env p h)"
| "compare_js env v h = Inl PlainError"

fun pg_param :: "libs \<Rightarrow> jsval \<Rightarrow> string" where
  "pg_param env (JStr s) = s"
| "pg_param env v = prepareValue env v"

subsection \<open>\<^verbatim>\<open>initializeDatabase\<close> (lines 23 to 40)\<close>

text \<open>
  \<^verbatim>\<open>pool.connect()\<close> stands before the \<^verbatim>\<open>try\<close>: when it fails the promise of
  \<open>initializeDatabase\<close> is rejected. A failure of the query is caught and logged, and the
  promise is fulfilled; \<^verbatim>\<open>finally\<close> releases the client either way.
\<close>

datatype settled = Fulfilled | Rejected js_error

definition initializeDatabase ::
    "js_error option \<Rightarrow> js_error option \<Rightarrow> database \<Rightarrow> settled \<times> database \<times> effect list" where
  "initializeDatabase connect_fault query_fault db =
     (case connect_fault of
        Some e \<Rightarrow> (Rejected e, db, [PoolConnect])
      | None \<Rightarrow>
          (case create_table_if_not_exists query_fault db of
             (Inr u, db') \<Rightarrow>
               (Fulfilled, db',
                [PoolConnect, Query CreateTableIfNotExists, ConsoleLog, ClientRelease])
           | (Inl err, db') \<Rightarrow>
               (Fulfilled, db',
                [PoolConnect, Query CreateTableIfNotExists, ConsoleError, ClientRelease])))"

subsection \<open>\<^verbatim>\<open>POST /api/register\<close> (lines 45 to 70)\<close>

definition register_catch :: "js_error \<Rightarrow> response \<times> effect list" where
  "register_catch err =
     (if err_code err = Some ''23505'' then (reply 409 UsernameExists, [])
      else (reply 500 InternalError, [ConsoleError]))"

definition register ::
    "libs \<Rightarrow> world \<Rightarrow> database \<Rightarrow> credentials \<Rightarrow> response \<times> database \<times> effect list" where
  "register env w db req =
     (if \<not> truthy (req_username req) \<or> \<not> truthy (req_password req)
      then (reply 400 FieldsEmpty, db, [])
      else
        (case hash_js env (req_password req) 10 (salt w) of
           Inl err \<Rightarrow> (fst (register_catch err), db, snd (register_catch err))
         | Inr passwordHash \<Rightarrow>
             (let u = pg_param env (req_username req) in
              case insert_user (fault w) (clock w) u passwordHash db of
                (Inr (i, name), db') \<Rightarrow>
                  (\<lparr>status = 201,
                    body = [(''message'', Message RegisterSucceeded),
                            (''user'', Object [(''id'', Number i), (''username'', String name)])]\<rparr>,
                   db', [Query (InsertUser u passwordHash)])
              | (Inl err, db') \<Rightarrow>
                  (fst (register_catch err), db',
                   Query (InsertUser u passwordHash) # snd (register_catch err)))))"

subsection \<open>\<^verbatim>\<open>POST /api/login\<close> (lines 73 to 100)\<close>

definition login ::
    "libs \<Rightarrow> world \<Rightarrow> database \<Rightarrow> credentials \<Rightarrow> response \<times> database \<times> effect list" where
  "login env w db req =
     (if \<not> truthy (req_username req) \<or> \<not> truthy (req_password req)
      then (reply 400 FieldsEmpty, db, [])
      else
        (let u = pg_param env (req_username req) in
         case select_user (fault w) u db of
           (Inl err, db') \<Rightarrow>
             (reply 500 InternalError, db', [Query (SelectUser u), ConsoleError])
         | (Inr [], db') \<Rightarrow> (reply 401 WrongCredentials, db', [Query (SelectUser u)])
         | (Inr (user # others), db') \<Rightarrow>
             (case compare_js env (req_password req) (row_password_hash user) of
                Inl err \<Rightarrow>
                  (reply 500 InternalError, db', [Query (SelectUser u), ConsoleError])
              | Inr isMatch \<Rightarrow>
                  (if isMatch then (reply 200 LoginSucceeded, db', [Query (SelectUser u)])
                   else (reply 401 WrongCredentials, db', [Query (SelectUser u)])))))"

subsection \<open>Starting the server (lines 104 to 107)\<close>

text \<open>
  \<^verbatim>\<open>app.listen\<close> opens the port and then runs its callback, which logs and calls
  \<open>initializeDatabase\<close> without awaiting it or handling its rejection. What Node does
  with an unhandled rejection depends on its version and flags: \<open>throw_unhandled\<close>
  says whether it ends the process (the default since Node 15) or only warns.
\<close>

record server =
  listening :: bool
  exited :: bool
  store :: database

definition listen :: "bool \<Rightarrow> js_error option \<Rightarrow> js_error option \<Rightarrow> database \<Rightarrow>
    server \<times> effect list" where
  "listen throw_unhandled connect_fault query_fault db =
     (case initializeDatabase connect_fault query_fault db of
        (Fulfilled, db', fx) \<Rightarrow>
          (\<lparr>listening = True, exited = False, store = db'\<rparr>, ConsoleLog # fx)
      | (Rejected err, db', fx) \<Rightarrow>
          (\<lparr>listening = True, exited = throw_unhandled, store = db'\<rparr>, ConsoleLog # fx))"

datatype route = ApiRegister | ApiLogin

text \<open>A request is answered when the port is open and the process is alive.\<close>

definition serve :: "libs \<Rightarrow> world \<Rightarrow> server \<Rightarrow> route \<Rightarrow> credentials \<Rightarrow>
    response option \<times> server \<times> effect list" where
  "serve env w srv r req =
     (if listening srv \<and> \<not> exited srv then
        (case (case r of ApiRegister \<Rightarrow> register env w (store srv) req
                       | ApiLogin \<Rightarrow> login env w (store srv) req) of
           (res, db', fx) \<Rightarrow> (Some res, srv\<lparr>store := db'\<rparr>, fx))
      else (None, srv, []))"

subsection \<open>Notions the properties are stated with\<close>

text \<open>The statements a call sent to the database, in order.\<close>

definition store_statements :: "effect list \<Rightarrow> statement list" where
  "store_statements fx = concat (map (\<lambda>e. case e of Query s \<Rightarrow> [s] | _ \<Rightarrow> []) fx)"

text \<open>The row an \<^verbatim>\<open>INSERT\<close> adds to table \<open>t\<close>.\<close>

definition new_row :: "users_table \<Rightarrow> string \<Rightarrow> string \<Rightarrow> nat \<Rightarrow> user_row" where
  "new_row t name h now =
     \<lparr>row_id = users_id_seq t, row_username = name, row_password_hash = h,
      row_created_at = now\<rparr>"

text \<open>
  What the constraints of the table guarantee of its rows: \<open>username\<close> and \<open>id\<close> are
  unique, the two strings fit their columns, and the username, a text value, has no
  character U+0000.
\<close>

definition wf_table :: "users_table \<Rightarrow> bool" where
  "wf_table t =
     (distinct (map row_username (table_rows t)) \<and>
      distinct (map row_id (table_rows t)) \<and>
      list_all (\<lambda>r. length (row_username r) \<le> 50 \<and> length (row_password_hash r) \<le> 100 \<and>
                    \<not> has_nul (row_username r))
        (table_rows t))"

text \<open>
  What is assumed of bcrypt where a property needs it: a hash has 60 characters; a
  password verifies against its own hash; no password is its own hash. (That only the
  password of a hash verifies against it cannot be assumed: see \<open>bounded_hash_collides\<close>
  below.)
\<close>

definition bcrypt_sixty :: "libs \<Rightarrow> bool" where
  "bcrypt_sixty env = (\<forall>d r s. length (bcrypt_hash env d r s) = 60)"

definition bcrypt_verifies :: "libs \<Rightarrow> bool" where
  "bcrypt_verifies env = (\<forall>d r s. bcrypt_compare env d (bcrypt_hash env d r s))"

definition bcrypt_not_identity :: "libs \<Rightarrow> bool" where
  "bcrypt_not_identity env = (\<forall>d r s. bcrypt_hash env d r s \<noteq> d)"

text \<open>The invariant of the database: the table, when it exists, is well formed.\<close>

definition wf_db :: "database \<Rightarrow> bool" where
  "wf_db db = (case db of None \<Rightarrow> True | Some t \<Rightarrow> wf_table t)"

subsection \<open>Instances to run the definitions on\<close>

text \<open>
  A stand-in for bcrypt: its hashes have 60 characters, differ from every input and
  verify.
\<close>

definition demo_hash :: "string \<Rightarrow> string" where
  "demo_hash d =
     (if d = ''$2b$10$N9qo8uLOickgx2ZMRZoMyeIjZAgcfl7p92ldGxad68LJZdL17lhWy''
      then ''$2b$10$7EqJtq98hPqEX7fNZaFWoOa0bBPyX3uBd1kV7bJcAdR9mNqlS8vQy''
      else ''$2b$10$N9qo8uLOickgx2ZMRZoMyeIjZAgcfl7p92ldGxad68LJZdL17lhWy'')"

definition demo_libs :: libs where
  "demo_libs = \<lparr>bcrypt_hash = (\<lambda>d r s. demo_hash d),
                 bcrypt_compare = (\<lambda>d h. h = demo_hash d),
                 prepareValue = (\<lambda>v. ''[object Object]'')\<rparr>"

definition quiet :: world where
  "quiet = \<lparr>salt = ''N9qo8uLOickgx2ZMRZoMye'', clock = 7, fault = None\<rparr>"

text \<open>
  The scenario of the specification: \<open>alice\<close> registers with \<open>correct-horse\<close>;
  \<open>alice_table\<close> is the table after that. \<open>padded\<close> has a username of 51 characters,
  the last a space; the username of \<open>nul_bob\<close>, never registered, has the character
  U+0000.
\<close>

definition alice :: credentials where
  "alice = \<lparr>req_username = JStr ''alice'', req_password = JStr ''correct-horse''\<rparr>"

definition alice_table :: users_table where
  "alice_table =
     \<lparr>table_rows = [\<lparr>row_id = 1, row_username = ''alice'',
                      row_password_hash = demo_hash ''correct-horse'', row_created_at = 7\<rparr>],
      users_id_seq = 2\<rparr>"

definition nul_bob :: credentials where
  "nul_bob = \<lparr>req_username = JStr [CHR ''b'', CHR ''o'', CHR 0x00, CHR ''b''],
              req_password = JStr ''anything''\<rparr>"

definition padded :: credentials where
  "padded = \<lparr>req_username = JStr ''aaaaaaaaaaaaaaaaaaaaaaaaaaaaaaaaaaaaaaaaaaaaaaaaaa '',
             req_password = JStr ''correct-horse''\<rparr>"

section \<open>Properties\<close>

subsection \<open>Auxiliary facts\<close>

lemma varchar_fits: "length s \<le> n \<Longrightarrow> varchar n s = Some s"
  by (simp add: varchar_def)

lemma varchar_length: "varchar n s = Some s' \<Longrightarrow> length s' \<le> n"
  by (auto simp: varchar_def split: if_splits)

lemma varchar_no_nul: "varchar n s = Some s' \<Longrightarrow> \<not> has_nul s \<Longrightarrow> \<not> has_nul s'"
  by (auto simp: varchar_def has_nul_def split: if_splits dest: in_set_takeD)

lemma insert_user_Inr:
  assumes "insert_user f now u h db = (Inr (i, name), db')"
  shows "\<exists>t h'. f = None \<and> db = Some t \<and> \<not> has_nul u \<and> varchar 50 u = Some name \<and>
           varchar 100 h = Some h' \<and> i = users_id_seq t \<and>
           \<not> list_ex (\<lambda>r. row_id r = i \<or> row_username r = name) (table_rows t) \<and>
           db' = Some \<lparr>table_rows = table_rows t @ [new_row t name h' now],
                       users_id_seq = Suc (users_id_seq t)\<rparr>"
  using assms
  by (auto simp: insert_user_def Let_def new_row_def split: option.splits if_splits)

lemma insert_user_Inl_rows:
  assumes "insert_user f now u h db = (Inl e, db')"
  shows "map_option table_rows db' = map_option table_rows db"
  using assms
  by (auto simp: insert_user_def Let_def split: option.splits if_splits)

text \<open>The only way to status 201.\<close>

lemma register_201:
  assumes "register env w db req = (res, db', fx)" and "status res = 201"
  shows "\<exists>p t name h'. req_password req = JStr p \<and> p \<noteq> [] \<and> truthy (req_username req) \<and>
           fault w = None \<and> db = Some t \<and>
           \<not> has_nul (pg_param env (req_username req)) \<and>
           varchar 50 (pg_param env (req_username req)) = Some name \<and>
           varchar 100 (bcrypt_hash env p 10 (salt w)) = Some h' \<and>
           \<not> list_ex (\<lambda>r. row_id r = users_id_seq t \<or> row_username r = name) (table_rows t) \<and>
           db' = Some \<lparr>table_rows = table_rows t @ [new_row t name h' (clock w)],
                       users_id_seq = Suc (users_id_seq t)\<rparr> \<and>
           res = \<lparr>status = 201,
                   body = [(''message'', Message RegisterSucceeded),
                           (''user'', Object [(''id'', Number (users_id_seq t)),
                                              (''username'', String name)])]\<rparr>"
proof -
  from assms have ok: "truthy (req_username req)" "truthy (req_password req)"
    by (auto simp: register_def reply_def split: if_splits)
  from assms ok obtain p where p: "req_password req = JStr p"
    by (cases "req_password req")
       (auto simp: register_def register_catch_def reply_def split: if_splits)
  with ok have pne: "p \<noteq> []" by simp
  let ?u = "pg_param env (req_username req)"
  let ?h = "bcrypt_hash env p 10 (salt w)"
  obtain r d where ins: "insert_user (fault w) (clock w) ?u ?h db = (r, d)"
    by (cases "insert_user (fault w) (clock w) ?u ?h db")
  show ?thesis
  proof (cases r)
    case (Inl e)
    with assms ok p ins show ?thesis
      by (auto simp: register_def register_catch_def reply_def Let_def split: if_splits)
  next
    case (Inr v)
    obtain i name where v: "v = (i, name)" by (cases v)
    from assms ok p ins Inr v
    have res: "res = \<lparr>status = 201,
                   body = [(''message'', Message RegisterSucceeded),
                           (''user'', Object [(''id'', Number i), (''username'', String name)])]\<rparr>"
      and d: "db' = d"
      by (auto simp: register_def Let_def)
    from insert_user_Inr[OF ins[unfolded Inr v]] d res ok p pne show ?thesis
      by auto
  qed
qed

text \<open>Every other outcome leaves the rows as they were.\<close>

lemma register_not_201_rows:
  assumes "register env w db req = (res, db', fx)" and "status res \<noteq> 201"
  shows "map_option table_rows db' = map_option table_rows db"
proof (cases "\<not> truthy (req_username req) \<or> \<not> truthy (req_password req)")
  case True
  with assms show ?thesis by (simp add: register_def)
next
  case False
  show ?thesis
  proof (cases "hash_js env (req_password req) 10 (salt w)")
    case (Inl e)
    with assms False show ?thesis by (simp add: register_def)
  next
    case (Inr h)
    obtain r d where
      ins: "insert_user (fault w) (clock w) (pg_param env (req_username req)) h db = (r, d)"
      by (cases "insert_user (fault w) (clock w) (pg_param env (req_username req)) h db")
    show ?thesis
    proof (cases r)
      case (Inl e)
      with assms False Inr ins have "db' = d" by (simp add: register_def Let_def)
      with insert_user_Inl_rows[OF ins[unfolded Inl]] show ?thesis by simp
    next
      case r: (Inr v)
      with assms False Inr ins show ?thesis
        by (auto simp: register_def Let_def split: prod.splits)
    qed
  qed
qed

lemma register_bad_input:
  "\<not> truthy (req_username req) \<or> \<not> truthy (req_password req) \<Longrightarrow>
   register env w db req = (reply 400 FieldsEmpty, db, [])"
  by (simp add: register_def)

lemma login_bad_input:
  "\<not> truthy (req_username req) \<or> \<not> truthy (req_password req) \<Longrightarrow>
   login env w db req = (reply 400 FieldsEmpty, db, [])"
  by (simp add: login_def)

lemma login_store: "fst (snd (login env w db req)) = db"
  by (auto simp: login_def select_user_def Let_def
           split: option.splits sum.splits list.splits)

lemma login_statements:
  "truthy (req_username req) \<Longrightarrow> truthy (req_password req) \<Longrightarrow>
   store_statements (snd (snd (login env w db req))) =
     [SelectUser (pg_param env (req_username req))]"
  by (auto simp: login_def select_user_def Let_def store_statements_def
           split: option.splits sum.splits list.splits)

lemma register_statements:
  "truthy (req_username req) \<Longrightarrow> req_password req = JStr p \<Longrightarrow> p \<noteq> [] \<Longrightarrow>
   store_statements (snd (snd (register env w db req))) =
     [InsertUser (pg_param env (req_username req)) (bcrypt_hash env p 10 (salt w))]"
  by (auto simp: register_def insert_user_def Let_def store_statements_def register_catch_def
           split: option.splits sum.splits list.splits prod.splits)

lemma listen_query_fault:
  "listen t None (Some e) db =
    (\<lparr>listening = True, exited = False, store = db\<rparr>,
     [ConsoleLog, PoolConnect, Query CreateTableIfNotExists, ConsoleError, ClientRelease])"
  by (simp add: listen_def initializeDatabase_def create_table_if_not_exists_def)

lemma wf_empty_table: "wf_table empty_table"
  by (simp add: wf_table_def empty_table_def)

lemma filter_unique_username:
  "distinct (map row_username rows) \<Longrightarrow> r \<in> set rows \<Longrightarrow>
   filter (\<lambda>x. row_username x = row_username r) rows = [r]"
proof (induction rows)
  case Nil
  then show ?case by simp
next
  case (Cons x rows)
  show ?case
  proof (cases "x = r")
    case True
    with Cons.prems have "row_username r \<notin> row_username ` set rows" by simp
    then have "\<forall>x\<in>set rows. row_username x \<noteq> row_username r"
      by (metis imageI)
    then have "filter (\<lambda>x. row_username x = row_username r) rows = []"
      by (simp add: filter_empty_conv)
    with True show ?thesis by simp
  next
    case False
    with Cons.prems have r: "r \<in> set rows" and d: "distinct (map row_username rows)"
      and "row_username x \<notin> row_username ` set rows" by auto
    then have "row_username x \<noteq> row_username r" by auto
    with Cons.IH[OF d r] show ?thesis by simp
  qed
qed

lemma filter_absent_username:
  "u \<notin> row_username ` set rows \<Longrightarrow> filter (\<lambda>x. row_username x = u) rows = []"
  by (auto simp: filter_empty_conv)

lemma login_found:
  assumes "fault w = None" and "u \<noteq> []" and "\<not> has_nul u" and "p \<noteq> []"
    and "filter (\<lambda>x. row_username x = u) (table_rows t) = r # rs"
  shows "login env w (Some t) \<lparr>req_username = JStr u, req_password = JStr p\<rparr> =
           (if bcrypt_compare env p (row_password_hash r) then reply 200 LoginSucceeded
            else reply 401 WrongCredentials, Some t, [Query (SelectUser u)])"
  using assms by (simp add: login_def select_user_def)

lemma login_not_found:
  assumes "fault w = None" and "u \<noteq> []" and "\<not> has_nul u" and "p \<noteq> []"
    and "filter (\<lambda>x. row_username x = u) (table_rows t) = []"
  shows "login env w (Some t) \<lparr>req_username = JStr u, req_password = JStr p\<rparr> =
           (reply 401 WrongCredentials, Some t, [Query (SelectUser u)])"
  using assms by (simp add: login_def select_user_def)

text \<open>
  A password that is present but not a string reaches \<^verbatim>\<open>bcrypt.compare\<close> only when
  a row was found, and makes it throw.
\<close>

lemma login_non_string_password:
  assumes "fault w = None" and "u \<noteq> []" and "\<not> has_nul u"
    and "truthy v" and "\<forall>p. v \<noteq> JStr p"
  shows "fst (login env w (Some t) \<lparr>req_username = JStr u, req_password = v\<rparr>) =
           (if filter (\<lambda>x. row_username x = u) (table_rows t) = []
            then reply 401 WrongCredentials else reply 500 InternalError)"
  using assms
  by (cases v) (auto simp: login_def select_user_def split: list.splits)

lemma register_other_body:
  assumes "register env w db req = (res, db', fx)" and "status res \<noteq> 201"
  shows "\<exists>m. res = reply (status res) m"
proof -
  have rc: "\<exists>m. fst (register_catch e) = reply (status (fst (register_catch e))) m" for e
    by (auto simp: register_catch_def reply_def)
  show ?thesis
  proof (cases "\<not> truthy (req_username req) \<or> \<not> truthy (req_password req)")
    case True
    with assms have "res = reply 400 FieldsEmpty" by (simp add: register_def)
    then show ?thesis by (auto simp: reply_def)
  next
    case False
    show ?thesis
    proof (cases "hash_js env (req_password req) 10 (salt w)")
      case (Inl e)
      with assms False have "res = fst (register_catch e)" by (simp add: register_def)
      with rc[of e] show ?thesis by auto
    next
      case (Inr h)
      obtain r d where
        ins: "insert_user (fault w) (clock w) (pg_param env (req_username req)) h db = (r, d)"
        by (cases "insert_user (fault w) (clock w) (pg_param env (req_username req)) h db")
      show ?thesis
      proof (cases r)
        case (Inl e)
        with assms False Inr ins have "res = fst (register_catch e)"
          by (simp add: register_def Let_def)
        with rc[of e] show ?thesis by auto
      next
        case r: (Inr v)
        with assms False Inr ins show ?thesis
          by (auto simp: register_def Let_def split: prod.splits)
      qed
    qed
  qed
qed

lemma login_body: "\<exists>n m. fst (login env w db req) = reply n m"
  by (auto simp: login_def Let_def split: prod.splits sum.splits list.splits)

lemma register_response_independent_of_password:
  assumes "bcrypt_sixty env" and "p1 \<noteq> []" and "p2 \<noteq> []" and "fault w1 = fault w2"
  shows "fst (register env w1 db \<lparr>req_username = u, req_password = JStr p1\<rparr>) =
         fst (register env w2 db \<lparr>req_username = u, req_password = JStr p2\<rparr>)"
proof -
  from assms(1) have
    "varchar 100 (bcrypt_hash env p1 10 (salt w1)) = Some (bcrypt_hash env p1 10 (salt w1))"
    "varchar 100 (bcrypt_hash env p2 10 (salt w2)) = Some (bcrypt_hash env p2 10 (salt w2))"
    by (simp_all add: bcrypt_sixty_def varchar_def)
  with assms(2-4) show ?thesis
    by (simp add: register_def insert_user_def Let_def split: option.splits)
qed

text \<open>
  A hash of bounded length cannot keep all passwords apart: whatever library has
  60-character hashes that verify, some password verifies against the hash of
  another.
\<close>

lemma bounded_hash_collides:
  assumes "bcrypt_sixty env" and "bcrypt_verifies env"
  shows "\<exists>p p'. p' \<noteq> p \<and> bcrypt_compare env p' (bcrypt_hash env p r s)"
proof -
  let ?f = "\<lambda>d. bcrypt_hash env d r s"
  have "range ?f \<subseteq> {xs. set xs \<subseteq> (UNIV :: char set) \<and> length xs = 60}"
    using assms(1) by (auto simp: bcrypt_sixty_def)
  moreover have "finite {xs. set xs \<subseteq> (UNIV :: char set) \<and> length xs = 60}"
    by (rule finite_lists_length_eq) simp
  ultimately have "finite (range ?f)" by (rule finite_subset)
  moreover have "infinite (UNIV :: string set)" by (rule infinite_UNIV_listI)
  ultimately have "\<not> inj ?f" using finite_imageD by blast
  then obtain p p' where "p' \<noteq> p" and eq: "?f p = ?f p'"
    by (auto simp: inj_on_def)
  moreover from assms(2) have "bcrypt_compare env p' (?f p')"
    by (simp add: bcrypt_verifies_def)
  ultimately show ?thesis using eq by metis
qed

subsection \<open>The invariant is kept\<close>

lemma register_preserves_wf:
  assumes "register env w (Some t) req = (res, db', fx)" and "wf_table t"
  shows "\<exists>t'. db' = Some t' \<and> wf_table t'"
proof (cases "status res = 201")
  case True
  from register_201[OF assms(1) True] obtain name h' p where
    f: "varchar 50 (pg_param env (req_username req)) = Some name"
       "varchar 100 (bcrypt_hash env p 10 (salt w)) = Some h'"
       "\<not> list_ex (\<lambda>r. row_id r = users_id_seq t \<or> row_username r = name) (table_rows t)"
       "db' = Some \<lparr>table_rows = table_rows t @ [new_row t name h' (clock w)],
                   users_id_seq = Suc (users_id_seq t)\<rparr>"
       "\<not> has_nul (pg_param env (req_username req))"
    by auto
  from varchar_length[OF f(1)] varchar_length[OF f(2)] varchar_no_nul[OF f(1) f(5)]
    f(3) assms(2)
  have "wf_table \<lparr>table_rows = table_rows t @ [new_row t name h' (clock w)],
                   users_id_seq = Suc (users_id_seq t)\<rparr>"
    by (auto simp: wf_table_def new_row_def list_ex_iff list_all_iff)
  with f(4) show ?thesis by simp
next
  case False
  from register_not_201_rows[OF assms(1) False] obtain t' where
    "db' = Some t'" "table_rows t' = table_rows t" by auto
  with assms(2) show ?thesis by (simp add: wf_table_def)
qed

lemma initializeDatabase_wf:
  "wf_db db \<Longrightarrow> wf_db (fst (snd (initializeDatabase cf qf db)))"
  by (auto simp: initializeDatabase_def create_table_if_not_exists_def wf_db_def wf_empty_table
           split: option.splits)

lemma register_wf:
  assumes "wf_db db"
  shows "wf_db (fst (snd (register env w db req)))"
proof (cases db)
  case None
  then show ?thesis
    by (auto simp: register_def insert_user_def wf_db_def Let_def
             split: option.splits sum.splits)
next
  case (Some t)
  obtain res db' fx where r: "register env w (Some t) req = (res, db', fx)"
    by (cases "register env w (Some t) req")
  with assms Some register_preserves_wf[OF r] show ?thesis
    by (auto simp: wf_db_def)
qed

lemma login_wf: "wf_db db \<Longrightarrow> wf_db (fst (snd (login env w db req)))"
  by (simp add: login_store)

subsection \<open>The instances\<close>

lemma demo_sixty: "bcrypt_sixty demo_libs"
  by (simp add: bcrypt_sixty_def demo_libs_def demo_hash_def)

lemma demo_verifies: "bcrypt_verifies demo_libs"
  by (simp add: bcrypt_verifies_def demo_libs_def)

lemma demo_not_identity: "bcrypt_not_identity demo_libs"
  by (auto simp: bcrypt_not_identity_def demo_libs_def demo_hash_def)

lemma register_alice:
  "register demo_libs quiet (Some empty_table) alice =
     (\<lparr>status = 201,
       body = [(''message'', Message RegisterSucceeded),
               (''user'', Object [(''id'', Number 1), (''username'', String ''alice'')])]\<rparr>,
      Some alice_table,
      [Query (InsertUser ''alice'' (demo_hash ''correct-horse''))])"
  by (simp add: register_def insert_user_def varchar_def has_nul_def alice_def
        alice_table_def demo_libs_def demo_hash_def quiet_def empty_table_def Let_def)

lemma login_alice_unknown:
  "login demo_libs quiet (Some empty_table) alice =
     (reply 401 WrongCredentials, Some empty_table, [Query (SelectUser ''alice'')])"
  by (simp add: login_def select_user_def has_nul_def alice_def quiet_def empty_table_def
        Let_def)

lemma register_alice_again:
  "register demo_libs quiet (Some alice_table) alice =
     (reply 409 UsernameExists, Some (alice_table\<lparr>users_id_seq := 3\<rparr>),
      [Query (InsertUser ''alice'' (demo_hash ''correct-horse''))])"
  by (simp add: register_def insert_user_def register_catch_def varchar_def has_nul_def
        alice_def alice_table_def demo_libs_def demo_hash_def quiet_def Let_def)

lemma wf_alice_table: "wf_table alice_table"
  by (simp add: wf_table_def alice_table_def demo_hash_def has_nul_def)

section \<open>The claims\<close>

subsection \<open>C1: a failed schema initialisation\<close>

text \<open>
  C1, as the code has it. When the \<^verbatim>\<open>CREATE TABLE\<close> statement of the initialiser
  fails, the failure is caught and logged and is not fatal: \<open>initializeDatabase\<close> is
  fulfilled, the client is released, the database is as it was, and the server, whose
  port was opened before the initialiser ran, is listening and alive, whatever Node
  does with unhandled rejections. Every register or login request that follows is
  answered, by the route's handler run against that database.
\<close>

theorem failed_schema_statement_not_fatal:
  "listen t None (Some e) db =
     (\<lparr>listening = True, exited = False, store = db\<rparr>,
      [ConsoleLog, PoolConnect, Query CreateTableIfNotExists, ConsoleError, ClientRelease]) \<and>
   fst (serve env w (fst (listen t None (Some e) db)) r req) =
     Some (fst (case r of ApiRegister \<Rightarrow> register env w db req
                        | ApiLogin \<Rightarrow> login env w db req))"
  by (cases r) (simp_all add: listen_query_fault serve_def split_beta)

text \<open>
  The theorem at a database without the table, where the role may not create it
  (SQLSTATE 42501) and Node ends the process on an unhandled rejection: a login that
  follows is answered, with the server error.
\<close>

theorem failed_schema_statement_not_fatal_witness:
  "fst (serve demo_libs quiet (fst (listen True None (Some (DatabaseError ''42501'')) None))
          ApiLogin alice) =
     Some \<lparr>status = 500, body = [(''message'', Message InternalError)]\<rparr>"
  using failed_schema_statement_not_fatal
    [of True "DatabaseError ''42501''" None demo_libs quiet ApiLogin alice]
  by (simp add: listen_query_fault login_def select_user_def quiet_def reply_def alice_def)

text \<open>
  C1 as stated (no request is served after a failed initialisation) fails: the table
  exists, the \<^verbatim>\<open>CREATE TABLE\<close> statement fails with 42501, the initialiser is
  fulfilled all the same, and the registration that follows is served with 201.
\<close>

theorem failed_schema_fatal_counterexample:
  "create_table_if_not_exists (Some (DatabaseError ''42501'')) (Some empty_table) =
     (Inl (DatabaseError ''42501''), Some empty_table) \<and>
   fst (initializeDatabase None (Some (DatabaseError ''42501'')) (Some empty_table)) =
     Fulfilled \<and>
   fst (serve demo_libs quiet
          (fst (listen True None (Some (DatabaseError ''42501'')) (Some empty_table)))
          ApiRegister alice) =
     Some \<lparr>status = 201,
            body = [(''message'', Message RegisterSucceeded),
                    (''user'', Object [(''id'', Number 1), (''username'', String ''alice'')])]\<rparr>"
  by (simp add: listen_query_fault serve_def register_alice initializeDatabase_def
        create_table_if_not_exists_def)

subsection \<open>C2: register, then log in\<close>

text \<open>
  C2, as the code has it. For every username of at most 50 characters (the width of
  the column) and every password, both non-empty: if \<open>register\<close> succeeds (status 201),
  then \<open>login\<close> with the same pair against the resulting database, the database not
  failing, answers 200 with the success message. The hashes of bcrypt are taken to have
  60 characters and to verify against the password they were made from.
\<close>

theorem register_then_login_accepted:
  assumes "u \<noteq> []" and "length u \<le> 50" and "p \<noteq> []"
    and "register env w db \<lparr>req_username = JStr u, req_password = JStr p\<rparr> = (res, db', fx)"
    and "status res = 201" and "fault w' = None"
    and "bcrypt_sixty env" and "bcrypt_verifies env"
  shows "fst (login env w' db' \<lparr>req_username = JStr u, req_password = JStr p\<rparr>) =
           reply 200 LoginSucceeded"
proof -
  let ?h = "bcrypt_hash env p 10 (salt w)"
  from register_201[OF assms(4,5)] obtain t name h' where
    f: "varchar 50 u = Some name" "varchar 100 ?h = Some h'"
       "\<not> list_ex (\<lambda>r. row_id r = users_id_seq t \<or> row_username r = name) (table_rows t)"
       "db' = Some \<lparr>table_rows = table_rows t @ [new_row t name h' (clock w)],
                   users_id_seq = Suc (users_id_seq t)\<rparr>"
    and nul: "\<not> has_nul u"
    by auto
  from assms(2) f(1) have name: "name = u" by (simp add: varchar_def)
  from assms(7) have "length ?h = 60" by (simp add: bcrypt_sixty_def)
  with f(2) have h': "h' = ?h" by (simp add: varchar_def)
  from f(3) name have "filter (\<lambda>x. row_username x = u) (table_rows t) = []"
    by (auto simp: list_ex_iff filter_empty_conv)
  then have sel: "filter (\<lambda>x. row_username x = u)
      (table_rows \<lparr>table_rows = table_rows t @ [new_row t name h' (clock w)],
                   users_id_seq = Suc (users_id_seq t)\<rparr>) = [new_row t u ?h (clock w)]"
    using name h' by (simp add: new_row_def)
  from login_found[OF assms(6) assms(1) nul assms(3) sel, of env] assms(8) f(4)
  show ?thesis by (simp add: bcrypt_verifies_def new_row_def)
qed

text \<open>The scenario: alice registers on the empty table and logs in.\<close>

theorem register_then_login_accepted_witness:
  "fst (login demo_libs quiet
          (fst (snd (register demo_libs quiet (Some empty_table) alice))) alice) =
     \<lparr>status = 200, body = [(''message'', Message LoginSucceeded)]\<rparr>"
proof -
  have q: "fault quiet = None" by (simp add: quiet_def)
  from register_then_login_accepted
    [OF _ _ _ register_alice [unfolded alice_def] _ q demo_sixty demo_verifies]
  show ?thesis
    by (simp add: register_alice [unfolded alice_def] alice_def reply_def)
qed

text \<open>
  C2 as stated (every non-empty pair) fails at a username of 51 characters whose last
  is a space: the registration succeeds, the column keeps the first 50 characters, and
  the login with the same 51 characters finds no row.
\<close>

theorem long_username_roundtrip_counterexample:
  "status (fst (register demo_libs quiet (Some empty_table) padded)) = 201 \<and>
   fst (login demo_libs quiet
          (fst (snd (register demo_libs quiet (Some empty_table) padded))) padded) =
     \<lparr>status = 401, body = [(''message'', Message WrongCredentials)]\<rparr>"
  by (simp add: register_def login_def insert_user_def select_user_def varchar_def
        has_nul_def padded_def demo_libs_def demo_hash_def quiet_def empty_table_def
        reply_def Let_def)

subsection \<open>C3: a username that is taken\<close>

text \<open>
  C3. For a username that a row of the (well-formed) table has, and any non-empty
  password, \<open>register\<close> answers 409 with the message that the username exists, not 500;
  the one statement sent is the \<^verbatim>\<open>INSERT\<close>, and the table has the rows it had (the
  sequence has moved on). The database does not fail otherwise, and the hash has the
  60 characters of a bcrypt hash.
\<close>

theorem duplicate_username_conflict:
  assumes "wf_table t" and "r \<in> set (table_rows t)" and "row_username r = u"
    and "u \<noteq> []" and "p \<noteq> []" and "fault w = None" and "bcrypt_sixty env"
  shows "register env w (Some t) \<lparr>req_username = JStr u, req_password = JStr p\<rparr> =
           (reply 409 UsernameExists,
            Some (t\<lparr>users_id_seq := Suc (users_id_seq t)\<rparr>),
            [Query (InsertUser u (bcrypt_hash env p 10 (salt w)))]) \<and>
         map_option table_rows
           (fst (snd (register env w (Some t)
              \<lparr>req_username = JStr u, req_password = JStr p\<rparr>))) =
           Some (table_rows t)"
proof -
  from assms have "length u \<le> 50" and nul: "\<not> has_nul u"
    by (auto simp: wf_table_def list_all_iff)
  then have vu: "varchar 50 u = Some u" by (simp add: varchar_fits)
  from assms have "length (bcrypt_hash env p 10 (salt w)) \<le> 100"
    by (simp add: bcrypt_sixty_def)
  then have vh: "varchar 100 (bcrypt_hash env p 10 (salt w)) =
      Some (bcrypt_hash env p 10 (salt w))"
    by (rule varchar_fits)
  from assms have ex:
    "list_ex (\<lambda>x. row_id x = users_id_seq t \<or> row_username x = u) (table_rows t)"
    by (auto simp: list_ex_iff)
  from assms vu vh ex nul show ?thesis
    by (simp add: register_def insert_user_def register_catch_def Let_def)
qed

text \<open>The scenario: alice is registered, and registers again with another password.\<close>

theorem duplicate_username_conflict_witness:
  "register demo_libs quiet (Some alice_table)
       \<lparr>req_username = JStr ''alice'', req_password = JStr ''other''\<rparr> =
     (\<lparr>status = 409, body = [(''message'', Message UsernameExists)]\<rparr>,
      Some (alice_table\<lparr>users_id_seq := 3\<rparr>),
      [Query (InsertUser ''alice'' (demo_hash ''other''))]) \<and>
   map_option table_rows (fst (snd (register demo_libs quiet (Some alice_table)
       \<lparr>req_username = JStr ''alice'', req_password = JStr ''other''\<rparr>))) =
     Some (table_rows alice_table)"
proof -
  have r: "hd (table_rows alice_table) \<in> set (table_rows alice_table)"
    and u: "row_username (hd (table_rows alice_table)) = ''alice''"
    by (simp_all add: alice_table_def)
  have q: "fault quiet = None" by (simp add: quiet_def)
  from duplicate_username_conflict [OF wf_alice_table r u _ _ q demo_sixty, of "''other''"]
  show ?thesis
    by (simp add: reply_def demo_libs_def quiet_def alice_table_def)
qed

subsection \<open>C4: the two rejections\<close>

text \<open>
  C4, as the code has it. In a well-formed table, let a row hold the username \<open>u\<close>,
  and let no row hold \<open>u'\<close>, which has no character U+0000. A login as \<open>u\<close> with a
  password that \<^verbatim>\<open>bcrypt.compare\<close> does not match with the hash of that row, and a
  login as \<open>u'\<close> with any password, get the same response: status 401 and the one
  message for wrong credentials. Usernames and passwords are non-empty strings, and
  the database does not fail during the lookup.
\<close>

theorem rejections_indistinguishable:
  assumes "fault w = None" and "fault w' = None" and "wf_table t"
    and "r \<in> set (table_rows t)" and "row_username r = u"
    and "\<not> bcrypt_compare env p (row_password_hash r)"
    and "p \<noteq> []" and "u \<noteq> []"
    and "u' \<notin> row_username ` set (table_rows t)" and "u' \<noteq> []" and "\<not> has_nul u'"
    and "p' \<noteq> []"
  shows "fst (login env w (Some t) \<lparr>req_username = JStr u, req_password = JStr p\<rparr>) =
           reply 401 WrongCredentials \<and>
         fst (login env w' (Some t) \<lparr>req_username = JStr u', req_password = JStr p'\<rparr>) =
           reply 401 WrongCredentials"
proof -
  from assms have nul: "\<not> has_nul u"
    by (auto simp: wf_table_def list_all_iff)
  from assms have "filter (\<lambda>x. row_username x = u) (table_rows t) = [r]"
    using filter_unique_username[of "table_rows t" r] by (simp add: wf_table_def)
  from login_found[OF \<open>fault w = None\<close> \<open>u \<noteq> []\<close> nul \<open>p \<noteq> []\<close> this, of env]
  have 1: "fst (login env w (Some t) \<lparr>req_username = JStr u, req_password = JStr p\<rparr>) =
           reply 401 WrongCredentials"
    using assms by simp
  from assms have "filter (\<lambda>x. row_username x = u') (table_rows t) = []"
    by (simp add: filter_absent_username)
  from login_not_found
    [OF \<open>fault w' = None\<close> \<open>u' \<noteq> []\<close> \<open>\<not> has_nul u'\<close> \<open>p' \<noteq> []\<close> this, of env]
  have 2: "fst (login env w' (Some t) \<lparr>req_username = JStr u', req_password = JStr p'\<rparr>) =
           reply 401 WrongCredentials"
    by simp
  from 1 2 show ?thesis by simp
qed

text \<open>
  The scenario: alice is registered; a login as alice with the stored hash itself
  for the password, and a login as bob, who never registered.
\<close>

theorem rejections_indistinguishable_witness:
  "fst (login demo_libs quiet (Some alice_table)
          \<lparr>req_username = JStr ''alice'',
           req_password = JStr (demo_hash ''correct-horse'')\<rparr>) =
     \<lparr>status = 401, body = [(''message'', Message WrongCredentials)]\<rparr> \<and>
   fst (login demo_libs quiet (Some alice_table)
          \<lparr>req_username = JStr ''bob'', req_password = JStr ''anything''\<rparr>) =
     \<lparr>status = 401, body = [(''message'', Message WrongCredentials)]\<rparr>"
proof -
  have r: "hd (table_rows alice_table) \<in> set (table_rows alice_table)"
    and u: "row_username (hd (table_rows alice_table)) = ''alice''"
    and m: "\<not> bcrypt_compare demo_libs (demo_hash ''correct-horse'')
              (row_password_hash (hd (table_rows alice_table)))"
    and b: "''bob'' \<notin> row_username ` set (table_rows alice_table)"
    and n: "\<not> has_nul ''bob''"
    and e: "demo_hash ''correct-horse'' \<noteq> []"
    by (simp_all add: alice_table_def demo_libs_def demo_hash_def has_nul_def)
  have q: "fault quiet = None" by (simp add: quiet_def)
  from rejections_indistinguishable
    [OF q q wf_alice_table r u m e _ b _ n, of "''anything''"]
  show ?thesis
    by (simp add: reply_def)
qed

text \<open>
  C4 as stated fails, with alice registered, at two inputs. A username that was
  never registered and has the character U+0000 is not rejected like a wrong
  password: the database refuses the parameter of the lookup and the answer is the
  server error 500. And with the password \<open>true\<close>, which is present but not a string,
  the two cases differ: 500 for alice, whose row is found and whose hash
  \<^verbatim>\<open>bcrypt.compare\<close> is then asked to compare, 401 for bob, who has no row.
\<close>

theorem rejections_differ_counterexample:
  "fst (login demo_libs quiet (Some alice_table) nul_bob) =
     \<lparr>status = 500, body = [(''message'', Message InternalError)]\<rparr> \<and>
   fst (login demo_libs quiet (Some alice_table)
          \<lparr>req_username = JStr ''alice'', req_password = JBool True\<rparr>) =
     \<lparr>status = 500, body = [(''message'', Message InternalError)]\<rparr> \<and>
   fst (login demo_libs quiet (Some alice_table)
          \<lparr>req_username = JStr ''bob'', req_password = JBool True\<rparr>) =
     \<lparr>status = 401, body = [(''message'', Message WrongCredentials)]\<rparr>"
  by (simp add: login_def select_user_def has_nul_def nul_bob_def alice_table_def
        demo_libs_def demo_hash_def quiet_def reply_def Let_def)

subsection \<open>C5: what is stored is the hash\<close>

text \<open>
  C5. A call of \<open>register\<close> changes the rows of the table only when it answers 201, and
  then by appending one row, whose \<open>password_hash\<close> is the bcrypt hash (10 rounds) of
  the password of the request; that hash is not empty and is not the password. Of
  bcrypt it is taken that a hash has 60 characters and that no password is its own
  hash.
\<close>

theorem stored_hash_is_not_plaintext:
  assumes "register env w db req = (res, db', fx)"
    and "bcrypt_sixty env" and "bcrypt_not_identity env"
  shows "(status res = 201 \<longrightarrow>
            (\<exists>p t name. req_password req = JStr p \<and> db = Some t \<and>
               map_option table_rows db' =
                 Some (table_rows t @
                   [new_row t name (bcrypt_hash env p 10 (salt w)) (clock w)]) \<and>
               bcrypt_hash env p 10 (salt w) \<noteq> [] \<and>
               bcrypt_hash env p 10 (salt w) \<noteq> p)) \<and>
         (status res \<noteq> 201 \<longrightarrow> map_option table_rows db' = map_option table_rows db)"
proof (cases "status res = 201")
  case True
  from register_201[OF assms(1) True] obtain p t name h' where
    f: "req_password req = JStr p" "db = Some t"
       "varchar 100 (bcrypt_hash env p 10 (salt w)) = Some h'"
       "db' = Some \<lparr>table_rows = table_rows t @ [new_row t name h' (clock w)],
                   users_id_seq = Suc (users_id_seq t)\<rparr>"
    by blast
  from assms(2) have len: "length (bcrypt_hash env p 10 (salt w)) = 60"
    by (simp add: bcrypt_sixty_def)
  with f(3) have "h' = bcrypt_hash env p 10 (salt w)"
    by (simp add: varchar_def)
  moreover from len have "bcrypt_hash env p 10 (salt w) \<noteq> []" by auto
  moreover from assms(3) have "bcrypt_hash env p 10 (salt w) \<noteq> p"
    by (simp add: bcrypt_not_identity_def)
  ultimately show ?thesis using True f by auto
next
  case False
  with register_not_201_rows[OF assms(1)] show ?thesis by simp
qed

text \<open>
  The scenario: the row that registering alice stores; and registering her again,
  which is answered with 409, stores none.
\<close>

theorem stored_hash_is_not_plaintext_witness:
  "status (fst (register demo_libs quiet (Some empty_table) alice)) = 201 \<and>
   map_option table_rows (fst (snd (register demo_libs quiet (Some empty_table) alice))) =
     Some [new_row empty_table ''alice'' (demo_hash ''correct-horse'') 7] \<and>
   demo_hash ''correct-horse'' \<noteq> [] \<and>
   demo_hash ''correct-horse'' \<noteq> ''correct-horse'' \<and>
   status (fst (register demo_libs quiet (Some alice_table) alice)) = 409 \<and>
   map_option table_rows (fst (snd (register demo_libs quiet (Some alice_table) alice))) =
     Some (table_rows alice_table)"
proof -
  have again: "status (fst (register demo_libs quiet (Some alice_table) alice)) = 409"
    by (simp add: register_alice_again reply_def)
  from stored_hash_is_not_plaintext [OF register_alice_again demo_sixty demo_not_identity]
  have kept:
    "map_option table_rows (fst (snd (register demo_libs quiet (Some alice_table) alice))) =
       Some (table_rows alice_table)"
    by (simp add: register_alice_again reply_def)
  have reg: "status (fst (register demo_libs quiet (Some empty_table) alice)) = 201"
    "map_option table_rows (fst (snd (register demo_libs quiet (Some empty_table) alice))) =
       Some (table_rows alice_table)"
    by (simp_all add: register_alice)
  have row: "table_rows alice_table =
      [new_row empty_table ''alice'' (demo_hash ''correct-horse'') 7]"
    by (simp add: alice_table_def new_row_def empty_table_def)
  have h: "demo_hash ''correct-horse'' \<noteq> []"
    "demo_hash ''correct-horse'' \<noteq> ''correct-horse''"
    by (simp_all add: demo_hash_def)
  from stored_hash_is_not_plaintext [OF register_alice demo_sixty demo_not_identity]
    reg row h again kept
  show ?thesis by simp
qed

subsection \<open>C6: missing or empty fields\<close>

text \<open>
  C6. When the username or the password of a request is absent or the empty string,
  \<open>register\<close> and \<open>login\<close> answer 400 with the message that the fields must not be
  empty, send no statement to the database (they have no effect at all) and leave
  the database as it was.
\<close>

theorem bad_input_rejected_before_store:
  assumes "req_username req \<in> {JUndefined, JStr []} \<or>
           req_password req \<in> {JUndefined, JStr []}"
  shows "register env w db req = (reply 400 FieldsEmpty, db, []) \<and>
         login env w db req = (reply 400 FieldsEmpty, db, [])"
proof -
  from assms have "\<not> truthy (req_username req) \<or> \<not> truthy (req_password req)"
    by auto
  then show ?thesis
    by (simp only: register_bad_input login_bad_input)
qed

text \<open>A request with an empty password, on the empty table.\<close>

theorem bad_input_rejected_before_store_witness:
  "register demo_libs quiet (Some empty_table)
       \<lparr>req_username = JStr ''alice'', req_password = JStr []\<rparr> =
     (\<lparr>status = 400, body = [(''message'', Message FieldsEmpty)]\<rparr>, Some empty_table, []) \<and>
   login demo_libs quiet (Some empty_table)
       \<lparr>req_username = JStr ''alice'', req_password = JStr []\<rparr> =
     (\<lparr>status = 400, body = [(''message'', Message FieldsEmpty)]\<rparr>, Some empty_table, [])"
  using bad_input_rejected_before_store
    [of "\<lparr>req_username = JStr ''alice'', req_password = JStr []\<rparr>"
        demo_libs quiet "Some empty_table"]
  by (simp add: reply_def)

subsection \<open>C7: the initialiser is idempotent\<close>

text \<open>
  C7. With the database reachable, \<open>initializeDatabase\<close> on a database that has the
  table is fulfilled, logs no error and leaves the table as it is; and from any
  database a first run is fulfilled without an error and leaves the table in
  existence, and a second run right after it does the same and changes nothing.
  (There is one table \<open>users\<close> or none: the database cannot hold two.)
\<close>

theorem initializeDatabase_idempotent:
  "initializeDatabase None None (Some t) =
     (Fulfilled, Some t,
      [PoolConnect, Query CreateTableIfNotExists, ConsoleLog, ClientRelease]) \<and>
   (case initializeDatabase None None db of
      (r1, db1, fx1) \<Rightarrow>
        r1 = Fulfilled \<and> db1 \<noteq> None \<and> ConsoleError \<notin> set fx1 \<and>
        initializeDatabase None None db1 = (Fulfilled, db1, fx1))"
  by (simp add: initializeDatabase_def create_table_if_not_exists_def split: option.splits)

subsection \<open>C8: what a response carries\<close>

text \<open>
  C8. A response of \<open>register\<close> with status 201 is the success message and a \<open>user\<close>
  object with exactly \<open>id\<close> and \<open>username\<close>, those of the row just added (the id is the
  value the sequence handed out). Every other response of \<open>register\<close>, and every
  response of \<open>login\<close>, is a message and nothing else. So no response has a field for
  the password or its hash; and the response of \<open>register\<close> is the same whichever
  non-empty password and whichever salt the call had (hashes having 60 characters).
\<close>

theorem responses_never_carry_password:
  "(case register env w db req of
      (res, db', fx) \<Rightarrow>
        (status res = 201 \<and>
         (\<exists>t name h. db = Some t \<and>
            db' = Some \<lparr>table_rows = table_rows t @ [new_row t name h (clock w)],
                        users_id_seq = Suc (users_id_seq t)\<rparr> \<and>
            body res = [(''message'', Message RegisterSucceeded),
                        (''user'', Object [(''id'', Number (users_id_seq t)),
                                           (''username'', String name)])])) \<or>
        (status res \<noteq> 201 \<and> (\<exists>m. body res = [(''message'', Message m)]))) \<and>
   (\<exists>m. body (fst (login env w db req)) = [(''message'', Message m)]) \<and>
   (bcrypt_sixty env \<and> pa \<noteq> [] \<and> pb \<noteq> [] \<and> fault wa = fault wb \<longrightarrow>
      fst (register env wa db \<lparr>req_username = u, req_password = JStr pa\<rparr>) =
      fst (register env wb db \<lparr>req_username = u, req_password = JStr pb\<rparr>))"
proof -
  obtain res db' fx where reg: "register env w db req = (res, db', fx)"
    by (cases "register env w db req")
  have "(status res = 201 \<and>
         (\<exists>t name h. db = Some t \<and>
            db' = Some \<lparr>table_rows = table_rows t @ [new_row t name h (clock w)],
                        users_id_seq = Suc (users_id_seq t)\<rparr> \<and>
            body res = [(''message'', Message RegisterSucceeded),
                        (''user'', Object [(''id'', Number (users_id_seq t)),
                                           (''username'', String name)])])) \<or>
        (status res \<noteq> 201 \<and> (\<exists>m. body res = [(''message'', Message m)]))"
  proof (cases "status res = 201")
    case True
    from register_201[OF reg True] obtain t name h' where
      "db = Some t"
      "db' = Some \<lparr>table_rows = table_rows t @ [new_row t name h' (clock w)],
                   users_id_seq = Suc (users_id_seq t)\<rparr>"
      "res = \<lparr>status = 201,
                   body = [(''message'', Message RegisterSucceeded),
                           (''user'', Object [(''id'', Number (users_id_seq t)),
                                              (''username'', String name)])]\<rparr>"
      by blast
    with True show ?thesis by auto
  next
    case False
    from register_other_body[OF reg False] obtain m where "res = reply (status res) m" ..
    then have "body res = [(''message'', Message m)]"
      by (metis reply_def response.select_convs(2))
    with False show ?thesis by blast
  qed
  moreover have "\<exists>m. body (fst (login env w db req)) = [(''message'', Message m)]"
    using login_body[of env w db req] by (auto simp: reply_def)
  moreover have "bcrypt_sixty env \<and> pa \<noteq> [] \<and> pb \<noteq> [] \<and> fault wa = fault wb \<longrightarrow>
      fst (register env wa db \<lparr>req_username = u, req_password = JStr pa\<rparr>) =
      fst (register env wb db \<lparr>req_username = u, req_password = JStr pb\<rparr>)"
    using register_response_independent_of_password[of env pa pb wa wb db u] by blast
  ultimately show ?thesis using reg by simp
qed

text \<open>
  The scenario: alice's registration is answered with her id 1 and her name, and
  would be with any other password; her login before that, with a message.
\<close>

theorem responses_never_carry_password_witness:
  "fst (register demo_libs quiet (Some empty_table) alice) =
     \<lparr>status = 201,
       body = [(''message'', Message RegisterSucceeded),
               (''user'', Object [(''id'', Number 1), (''username'', String ''alice'')])]\<rparr> \<and>
   fst (register demo_libs quiet (Some empty_table)
          \<lparr>req_username = JStr ''alice'', req_password = JStr ''other''\<rparr>) =
     \<lparr>status = 201,
       body = [(''message'', Message RegisterSucceeded),
               (''user'', Object [(''id'', Number 1), (''username'', String ''alice'')])]\<rparr> \<and>
   body (fst (login demo_libs quiet (Some empty_table) alice)) =
     [(''message'', Message WrongCredentials)]"
proof -
  from responses_never_carry_password
    [where env = demo_libs and w = quiet and db = "Some empty_table" and req = alice
       and wa = quiet and wb = quiet and pa = "''correct-horse''" and pb = "''other''"
       and u = "JStr ''alice''"]
    demo_sixty
  have "fst (register demo_libs quiet (Some empty_table)
          \<lparr>req_username = JStr ''alice'', req_password = JStr ''correct-horse''\<rparr>) =
        fst (register demo_libs quiet (Some empty_table)
          \<lparr>req_username = JStr ''alice'', req_password = JStr ''other''\<rparr>)"
    by simp
  with register_alice [unfolded alice_def] show ?thesis
    by (simp add: register_alice login_alice_unknown reply_def)
qed

subsection \<open>C9: statements sent to the database\<close>

text \<open>
  C9, as the code has it. A call of \<open>register\<close> whose username is present and whose
  password is a non-empty string sends exactly one statement, the \<^verbatim>\<open>INSERT\<close> of the
  username and the hash. A call of \<open>login\<close> whose username and password are both
  present sends exactly one statement, the \<^verbatim>\<open>SELECT\<close> by the username. And \<open>login\<close>
  never changes the database: for every database and every request, the database
  after the call is the database before it.
\<close>

theorem one_statement_per_accepted_call:
  "(truthy (req_username req) \<and> req_password req = JStr p \<and> p \<noteq> [] \<longrightarrow>
      store_statements (snd (snd (register env w db req))) =
        [InsertUser (pg_param env (req_username req)) (bcrypt_hash env p 10 (salt w))]) \<and>
   (truthy (req_username req) \<and> truthy (req_password req) \<longrightarrow>
      store_statements (snd (snd (login env w db req))) =
        [SelectUser (pg_param env (req_username req))]) \<and>
   fst (snd (login env w db req)) = db"
  using register_statements [of req p env w db] login_statements [of req env w db]
    login_store [of env w db req]
  by blast

text \<open>The scenario: alice registers, and alice logs in, on the empty table.\<close>

theorem one_statement_per_accepted_call_witness:
  "store_statements (snd (snd (register demo_libs quiet (Some empty_table) alice))) =
     [InsertUser ''alice'' (demo_hash ''correct-horse'')] \<and>
   store_statements (snd (snd (login demo_libs quiet (Some empty_table) alice))) =
     [SelectUser ''alice''] \<and>
   fst (snd (login demo_libs quiet (Some empty_table) alice)) = Some empty_table"
  using one_statement_per_accepted_call
    [of alice "''correct-horse''" demo_libs quiet "Some empty_table"]
  by (simp add: demo_libs_def alice_def)

text \<open>
  C9 as stated (every call sends one statement) fails at a request with an empty
  username: neither route sends a statement.
\<close>

theorem every_call_one_statement_counterexample:
  "store_statements (snd (snd (register demo_libs quiet (Some empty_table)
       \<lparr>req_username = JStr [], req_password = JStr ''correct-horse''\<rparr>))) = [] \<and>
   store_statements (snd (snd (login demo_libs quiet (Some empty_table)
       \<lparr>req_username = JStr [], req_password = JStr ''correct-horse''\<rparr>))) = []"
  by (simp add: register_def login_def store_statements_def)

subsection \<open>C10: the presence check is JavaScript's falsiness\<close>

text \<open>
  C10. The values the guard \<^verbatim>\<open>!v\<close> takes for missing are exactly the number 0,
  \<open>false\<close>, \<open>null\<close>, the empty string and \<open>undefined\<close> (an absent property); and when the
  username or the password of a request is one of them, \<open>register\<close> and \<open>login\<close> both
  answer 400 with the message that the fields must not be empty.
\<close>

theorem falsy_fields_count_as_missing:
  "(\<not> truthy v) = (v \<in> {JNum 0, JBool False, JNull, JStr [], JUndefined}) \<and>
   (v \<in> {JNum 0, JBool False, JNull, JStr [], JUndefined} \<longrightarrow>
    req_username req = v \<or> req_password req = v \<longrightarrow>
      fst (register env w db req) = reply 400 FieldsEmpty \<and>
      fst (login env w db req) = reply 400 FieldsEmpty)"
proof -
  have iff: "(\<not> truthy v) = (v \<in> {JNum 0, JBool False, JNull, JStr [], JUndefined})"
    by (cases v) auto
  have "fst (register env w db req) = reply 400 FieldsEmpty \<and>
        fst (login env w db req) = reply 400 FieldsEmpty"
    if "\<not> truthy v" and "req_username req = v \<or> req_password req = v"
  proof -
    from that have "\<not> truthy (req_username req) \<or> \<not> truthy (req_password req)"
      by auto
    then show ?thesis
      by (simp only: register_bad_input login_bad_input fst_conv)
  qed
  with iff show ?thesis by blast
qed

text \<open>A request whose username is the number 0.\<close>

theorem falsy_fields_count_as_missing_witness:
  "\<not> truthy (JNum 0) \<and>
   fst (register demo_libs quiet (Some empty_table)
          \<lparr>req_username = JNum 0, req_password = JStr ''secret''\<rparr>) =
     \<lparr>status = 400, body = [(''message'', Message FieldsEmpty)]\<rparr> \<and>
   fst (login demo_libs quiet (Some empty_table)
          \<lparr>req_username = JNum 0, req_password = JStr ''secret''\<rparr>) =
     \<lparr>status = 400, body = [(''message'', Message FieldsEmpty)]\<rparr>"
  using falsy_fields_count_as_missing
    [of "JNum 0" "\<lparr>req_username = JNum 0, req_password = JStr ''secret''\<rparr>"
        demo_libs quiet "Some empty_table"]
  by (simp add: reply_def)

end
